theory Spec2Isabelle
  imports Complex_Main "HOL-Library.Monad_Syntax"
begin

section \<open>JavaScript numbers\<close>

text \<open>
  The formatters of \<^verbatim>\<open>static/app/utils/formatters.tsx\<close> compute on JavaScript numbers.
  A number is modelled as a rational, or one of the three special values of IEEE 754
  that the code can meet: the two infinities and NaN. Finite arithmetic is exact in the
  model, so the model and the doubles of the host agree wherever the double arithmetic
  is exact: on integers of magnitude up to \<open>2^53\<close> and on their quotients by a constant
  once \<open>Math.floor\<close>, \<open>Math.ceil\<close> or \<open>round\<close> is applied. The sign of zero is not
  modelled: the code never divides by a zero and prints \<open>-0\<close> as \<open>0\<close>.
\<close>

datatype jsnum = Fin rat | PInf | NInf | NaN

datatype error = RangeError

text \<open>The sign of a number: \<open>1\<close>, \<open>-1\<close>, or \<open>0\<close> for zero; NaN has none.\<close>

fun sign_of :: "jsnum \<Rightarrow> int option" where
  "sign_of (Fin q) = Some (if q < 0 then -1 else if q = 0 then 0 else 1)"
| "sign_of PInf = Some 1"
| "sign_of NInf = Some (-1)"
| "sign_of NaN = None"

definition inf_of_sign :: "int \<Rightarrow> jsnum" where
  "inf_of_sign s = (if s < 0 then NInf else if s = 0 then NaN else PInf)"

text \<open>\<open>a * b\<close>: an infinity times zero is NaN.\<close>

fun js_mul :: "jsnum \<Rightarrow> jsnum \<Rightarrow> jsnum" where
  "js_mul (Fin a) (Fin b) = Fin (a * b)"
| "js_mul a b =
     (case (sign_of a, sign_of b) of
        (Some s, Some t) \<Rightarrow> inf_of_sign (s * t)
      | _ \<Rightarrow> NaN)"

text \<open>
  \<open>a / b\<close>. A finite number over an infinity is zero, an infinity over an infinity is
  NaN. Every divisor in the code is a positive constant or a power of ten; the
  quotient by zero is given for a positive zero.
\<close>

fun js_div :: "jsnum \<Rightarrow> jsnum \<Rightarrow> jsnum" where
  "js_div (Fin a) (Fin b) =
     (if b = 0 then inf_of_sign (if a < 0 then -1 else if a = 0 then 0 else 1)
      else Fin (a / b))"
| "js_div NaN b = NaN"
| "js_div a NaN = NaN"
| "js_div (Fin a) b = Fin 0"
| "js_div a (Fin b) = (case sign_of a of Some s \<Rightarrow> inf_of_sign (s * (if b < 0 then -1 else 1)) | None \<Rightarrow> NaN)"
| "js_div a b = NaN"


text \<open>Truncation toward zero, the integer part that \<open>%\<close> takes away.\<close>

definition trunc :: "rat \<Rightarrow> int" where
  "trunc q = (if q < 0 then \<lceil>q\<rceil> else \<lfloor>q\<rfloor>)"

text \<open>
  \<open>a % b\<close>: the remainder has the sign of the dividend; it is NaN when the dividend is
  infinite or the divisor is zero, and the dividend itself when the divisor is infinite.
\<close>

fun js_mod :: "jsnum \<Rightarrow> jsnum \<Rightarrow> jsnum" where
  "js_mod (Fin a) (Fin b) = (if b = 0 then NaN else Fin (a - b * of_int (trunc (a / b))))"
| "js_mod (Fin a) PInf = Fin a"
| "js_mod (Fin a) NInf = Fin a"
| "js_mod a b = NaN"

fun Math_abs :: "jsnum \<Rightarrow> jsnum" where
  "Math_abs (Fin q) = Fin \<bar>q\<bar>"
| "Math_abs PInf = PInf"
| "Math_abs NInf = PInf"
| "Math_abs NaN = NaN"

fun Math_floor :: "jsnum \<Rightarrow> jsnum" where
  "Math_floor (Fin q) = Fin (of_int \<lfloor>q\<rfloor>)"
| "Math_floor x = x"

fun Math_ceil :: "jsnum \<Rightarrow> jsnum" where
  "Math_ceil (Fin q) = Fin (of_int \<lceil>q\<rceil>)"
| "Math_ceil x = x"

text \<open>\<open>Math.round\<close>: the nearest integer, a tie going up.\<close>

fun Math_round :: "jsnum \<Rightarrow> jsnum" where
  "Math_round (Fin q) = Fin (of_int \<lfloor>q + 1 / 2\<rfloor>)"
| "Math_round x = x"

text \<open>The power of ten with an integer exponent.\<close>

definition pow10 :: "int \<Rightarrow> rat" where
  "pow10 p = (if 0 \<le> p then 10 ^ nat p else 1 / 10 ^ nat (- p))"

text \<open>
  \<open>round\<close> of lodash (the name \<open>round\<close> is taken in HOL). With no precision, or the
  precision zero, or a number that is not finite, it is \<open>Math.round(number)\<close>. With a
  precision \<open>p\<close>, capped at 292, it shifts the decimal point by \<open>p\<close> places, rounds, and
  shifts back.
\<close>

fun lodash_round :: "jsnum \<Rightarrow> int option \<Rightarrow> jsnum" where
  "lodash_round (Fin q) (Some p) =
     (if p = 0 then Math_round (Fin q)
      else Fin (of_int \<lfloor>q * pow10 (min p 292) + 1 / 2\<rfloor> / pow10 (min p 292)))"
| "lodash_round x p = Math_round x"

text \<open>Comparisons: every comparison with NaN is false.\<close>

fun js_lt :: "jsnum \<Rightarrow> jsnum \<Rightarrow> bool" where
  "js_lt (Fin a) (Fin b) = (a < b)"
| "js_lt NaN b = False"
| "js_lt a NaN = False"
| "js_lt PInf b = False"
| "js_lt a PInf = True"
| "js_lt a NInf = False"
| "js_lt NInf b = True"

text \<open>Strict equality \<open>===\<close> of two numbers: NaN equals nothing.\<close>

definition js_eq :: "jsnum \<Rightarrow> jsnum \<Rightarrow> bool" where
  "js_eq a b = (a \<noteq> NaN \<and> a = b)"

definition js_le :: "jsnum \<Rightarrow> jsnum \<Rightarrow> bool" where
  "js_le a b = (js_lt a b \<or> js_eq a b)"

definition js_gt :: "jsnum \<Rightarrow> jsnum \<Rightarrow> bool" where
  "js_gt a b = js_lt b a"

definition js_ge :: "jsnum \<Rightarrow> jsnum \<Rightarrow> bool" where
  "js_ge a b = js_le b a"

text \<open>A number in a condition: zero and NaN are falsy.\<close>

definition truthy :: "jsnum \<Rightarrow> bool" where
  "truthy x = (x \<noteq> Fin 0 \<and> x \<noteq> NaN)"

definition isNaN :: "jsnum \<Rightarrow> bool" where
  "isNaN x = (x = NaN)"

section \<open>Numbers as strings\<close>

text \<open>The decimal digits of a natural number, as \<open>String\<close> writes an integer.\<close>

definition digit_char :: "nat \<Rightarrow> char" where
  "digit_char d = char_of (48 + d)"

fun show_nat :: "nat \<Rightarrow> string" where
  "show_nat n = (if n < 10 then [digit_char n] else show_nat (n div 10) @ [digit_char (n mod 10)])"

declare show_nat.simps [simp del]

text \<open>
  A positive integer without its trailing zeros, and how many there were:
  \<open>m = s * 10 ^ z\<close> with \<open>s\<close> not a multiple of ten.
\<close>

fun strip_zeros :: "nat \<Rightarrow> nat \<times> nat" where
  "strip_zeros m =
     (if m = 0 \<or> m mod 10 \<noteq> 0 then (m, 0)
      else (case strip_zeros (m div 10) of (s, z) \<Rightarrow> (s, Suc z)))"

declare strip_zeros.simps [simp del]

text \<open>
  The decimal exponent of a positive rational \<open>x\<close>: the integer \<open>n\<close> with
  \<open>10 ^ (n - 1) \<le> x < 10 ^ n\<close>. With \<open>x = p / q\<close> in lowest terms it is the number of
  digits of \<open>p\<close> less the number of digits of \<open>q\<close>, or one more.
\<close>

definition decimal_exponent :: "rat \<Rightarrow> int" where
  "decimal_exponent x =
     (case quotient_of x of
        (p, q) \<Rightarrow>
          let d = int (length (show_nat (nat p))) - int (length (show_nat (nat q)))
          in if x < pow10 d then d else d + 1)"

text \<open>
  The digits that \<open>Number::toString\<close> of ECMAScript prints for a positive \<open>x\<close>: integers
  \<open>s\<close>, \<open>k\<close> and \<open>n\<close> with \<open>k\<close> the number of digits of \<open>s\<close>, \<open>s * 10 ^ (n - k)\<close> the value and
  \<open>k\<close> as small as possible. The shortest decimal that reads back as a given double has
  at most 17 significant digits, so the model takes the decimal expansion of \<open>x\<close> rounded
  to 17 significant digits and drops its trailing zeros: a value with at most 17
  significant digits, such as an integer below \<open>10 ^ 17\<close>, prints exactly. The result is
  the pair of \<open>s\<close> and \<open>n\<close>.
\<close>

definition shortest_digits :: "rat \<Rightarrow> nat \<times> int" where
  "shortest_digits x =
     (let n = decimal_exponent x;
          m = nat \<lfloor>x * pow10 (17 - n) + 1 / 2\<rfloor>
      in case strip_zeros m of
           (s, z) \<Rightarrow> (s, int (length (show_nat s)) + int z - (17 - n)))"

text \<open>\<open>Number::toString(x)\<close> for a positive finite \<open>x\<close>, in radix 10.\<close>

definition positive_toString :: "rat \<Rightarrow> string" where
  "positive_toString x =
     (case shortest_digits x of
        (s, n) \<Rightarrow>
          let ds = show_nat s; k = int (length ds) in
          if -5 \<le> n \<and> n \<le> 21 then
            (if k \<le> n then ds @ replicate (nat (n - k)) (CHR ''0'')
             else if 0 < n then take (nat n) ds @ ''.'' @ drop (nat n) ds
             else ''0.'' @ replicate (nat (- n)) (CHR ''0'') @ ds)
          else
            (let e = (if n < 0 then ''-'' else ''+'') @ show_nat (nat \<bar>n - 1\<bar>) in
             if k = 1 then ds @ ''e'' @ e
             else take 1 ds @ ''.'' @ drop 1 ds @ ''e'' @ e))"

text \<open>
  \<open>String(x)\<close>, \<open>x.toString()\<close> and a number in a template literal or in
  \<open>Array.prototype.join\<close>.
\<close>

fun Number_toString :: "jsnum \<Rightarrow> string" where
  "Number_toString NaN = ''NaN''"
| "Number_toString PInf = ''Infinity''"
| "Number_toString NInf = ''-Infinity''"
| "Number_toString (Fin q) =
     (if q = 0 then ''0''
      else if q < 0 then ''-'' @ positive_toString (- q)
      else positive_toString q)"

section \<open>Strings as numbers\<close>

text \<open>
  A string is a list of characters of eight bits, so the white space of ECMAScript
  is the part of it in Latin-1: tab, line feed, vertical tab, form feed, carriage
  return, space and the no-break space.
\<close>

definition isSpace :: "char \<Rightarrow> bool" where
  "isSpace c = ((of_char c :: nat) \<in> {9, 10, 11, 12, 13, 32, 160})"

definition trimStart :: "string \<Rightarrow> string" where
  "trimStart s = dropWhile isSpace s"

definition trim :: "string \<Rightarrow> string" where
  "trim s = rev (dropWhile isSpace (rev (dropWhile isSpace s)))"

definition isDigit :: "char \<Rightarrow> bool" where
  "isDigit c = (48 \<le> (of_char c :: nat) \<and> (of_char c :: nat) \<le> 57)"

text \<open>
  The value of a character as a digit in a radix up to 36: \<open>0\<close> to \<open>9\<close>, then the letters
  of either case from ten on.
\<close>

definition radix_digit :: "nat \<Rightarrow> char \<Rightarrow> nat option" where
  "radix_digit r c =
     (let n = (of_char c :: nat);
          d = (if 48 \<le> n \<and> n \<le> 57 then n - 48
               else if 97 \<le> n \<and> n \<le> 122 then n - 87
               else if 65 \<le> n \<and> n \<le> 90 then n - 55
               else 36)
      in if d < r then Some d else None)"

definition radix_value :: "nat \<Rightarrow> string \<Rightarrow> nat" where
  "radix_value r ds = foldl (\<lambda>a c. r * a + (case radix_digit r c of Some d \<Rightarrow> d | None \<Rightarrow> 0)) 0 ds"

definition digits_value :: "string \<Rightarrow> nat" where
  "digits_value ds = radix_value 10 ds"

text \<open>
  The exponent part of a decimal literal: \<open>e\<close> or \<open>E\<close>, a sign or none, and at least one
  digit. The result is the exponent and what follows it, or zero and the whole input
  when no exponent part stands first.
\<close>

definition exponent_part :: "string \<Rightarrow> int \<times> string" where
  "exponent_part s =
     (case s of
        [] \<Rightarrow> (0, s)
      | c # t \<Rightarrow>
          if c = CHR ''e'' \<or> c = CHR ''E'' then
            (let neg = (take 1 t = ''-'');
                 u = (if take 1 t = ''-'' \<or> take 1 t = ''+'' then drop 1 t else t);
                 ds = takeWhile isDigit u
             in if ds = [] then (0, s)
                else ((if neg then - int (digits_value ds) else int (digits_value ds)),
                      dropWhile isDigit u))
          else (0, s))"

text \<open>
  The longest prefix that is a \<open>StrUnsignedDecimalLiteral\<close> (\<open>Infinity\<close>, or digits with
  an optional fraction and exponent, or a fraction alone), with its value and the rest
  of the string.
\<close>

definition unsigned_decimal :: "string \<Rightarrow> (jsnum \<times> string) option" where
  "unsigned_decimal s =
     (if take 8 s = ''Infinity'' then Some (PInf, drop 8 s)
      else
        let ip = takeWhile isDigit s;
            r1 = dropWhile isDigit s;
            dot = (take 1 r1 = ''.'' \<and> (ip \<noteq> [] \<or> takeWhile isDigit (drop 1 r1) \<noteq> []));
            fp = (if dot then takeWhile isDigit (drop 1 r1) else []);
            r2 = (if dot then dropWhile isDigit (drop 1 r1) else r1)
        in if ip = [] \<and> fp = [] then None
           else
             (case exponent_part r2 of
                (e, r3) \<Rightarrow>
                  Some (Fin ((of_nat (digits_value ip) + of_nat (digits_value fp) / 10 ^ length fp)
                             * pow10 e), r3)))"

definition signed_decimal :: "string \<Rightarrow> (jsnum \<times> string) option" where
  "signed_decimal s =
     (if take 1 s = ''-'' then
        (case unsigned_decimal (drop 1 s) of
           None \<Rightarrow> None
         | Some (v, r) \<Rightarrow> Some (js_mul (Fin (- 1)) v, r))
      else if take 1 s = ''+'' then unsigned_decimal (drop 1 s)
      else unsigned_decimal s)"

text \<open>
  A \<open>NonDecimalIntegerLiteral\<close>: \<open>0x\<close>, \<open>0o\<close> or \<open>0b\<close> in either case and at least one
  digit of the radix, and nothing else.
\<close>

definition nondecimal_literal :: "string \<Rightarrow> jsnum option" where
  "nondecimal_literal s =
     (let r = (if take 2 s = ''0x'' \<or> take 2 s = ''0X'' then 16
               else if take 2 s = ''0o'' \<or> take 2 s = ''0O'' then 8
               else if take 2 s = ''0b'' \<or> take 2 s = ''0B'' then 2
               else 0);
          ds = drop 2 s
      in if r \<noteq> 0 \<and> ds \<noteq> [] \<and> list_all (\<lambda>c. radix_digit r c \<noteq> None) ds
         then Some (Fin (of_nat (radix_value r ds)))
         else None)"

text \<open>
  \<open>StringToNumber\<close>: white space around the literal is dropped; the empty string is
  zero; anything that is not one numeric literal is NaN.
\<close>

definition StringToNumber :: "string \<Rightarrow> jsnum" where
  "StringToNumber s =
     (let t = trim s in
      if t = [] then Fin 0
      else
        (case nondecimal_literal t of
           Some v \<Rightarrow> v
         | None \<Rightarrow>
             (case signed_decimal t of
                Some (v, []) \<Rightarrow> v
              | _ \<Rightarrow> NaN)))"

text \<open>The values that reach \<open>Number(...)\<close> in the code: \<open>undefined\<close>, a number or a string.\<close>

datatype jsval = Undefined | Num jsnum | Str string

fun Number :: "jsval \<Rightarrow> jsnum" where
  "Number Undefined = NaN"
| "Number (Num x) = x"
| "Number (Str s) = StringToNumber s"

text \<open>
  \<open>parseInt(string, radix)\<close>: leading white space and a sign are dropped, then the
  longest run of digits of the radix is read; with none the result is NaN. A radix of
  zero means ten, or sixteen after \<open>0x\<close>; the prefix \<open>0x\<close> is also dropped for the radix
  sixteen.
\<close>

definition parseInt :: "string \<Rightarrow> int \<Rightarrow> jsnum" where
  "parseInt string radix =
     (let s0 = trimStart string;
          neg = (take 1 s0 = ''-'');
          s1 = (if take 1 s0 = ''-'' \<or> take 1 s0 = ''+'' then drop 1 s0 else s0);
          hex = ((radix = 0 \<or> radix = 16) \<and> (take 2 s1 = ''0x'' \<or> take 2 s1 = ''0X''));
          r = (if hex then 16 else if radix = 0 then 10 else radix);
          s2 = (if hex then drop 2 s1 else s1);
          z = takeWhile (\<lambda>c. radix_digit (nat r) c \<noteq> None) s2
      in if r < 2 \<or> 36 < r then NaN
         else if z = [] then NaN
         else Fin (of_int ((if neg then - 1 else 1) * int (radix_value (nat r) z))))"

text \<open>\<open>parseFloat(string)\<close>: the longest decimal literal after the leading white space.\<close>

definition parseFloat :: "string \<Rightarrow> jsnum" where
  "parseFloat string =
     (case signed_decimal (trimStart string) of
        None \<Rightarrow> NaN
      | Some (v, r) \<Rightarrow> v)"

section \<open>Arrays and strings\<close>


text \<open>\<open>Array.prototype.join\<close> of an array of strings.\<close>

fun join :: "string \<Rightarrow> string list \<Rightarrow> string" where
  "join sep [] = []"
| "join sep [p] = p"
| "join sep (p # q # ps) = p @ sep @ join sep (q # ps)"

text \<open>
  \<open>slice(start)\<close> of an array or a string: a negative start counts from the end, and
  stops at the beginning.
\<close>

definition slice :: "int \<Rightarrow> 'a list \<Rightarrow> 'a list" where
  "slice start xs =
     (let len = int (length xs);
          k = (if start < 0 then max (len + start) 0 else min start len)
      in drop (nat k) xs)"



section \<open>The time unit table\<close>

definition WEEK :: jsnum where "WEEK = Fin 604800000"
definition DAY :: jsnum where "DAY = Fin 86400000"
definition HOUR :: jsnum where "HOUR = Fin 3600000"
definition MINUTE :: jsnum where "MINUTE = Fin 60000"
definition SECOND :: jsnum where "SECOND = Fin 1000"
definition MILLISECOND :: jsnum where "MILLISECOND = Fin 1"

section \<open>The clock\<close>

text \<open>
  \<open>divideBy\<close> of \<open>formatSecondsToClock\<close> (lines 161 to 166); \<open>convertDuration\<close> has the same
  function with \<open>msValue\<close> taken from its scope (lines 87 to 92).
\<close>

record divided =
  quotient :: jsnum
  remainder :: jsnum

definition divideBy :: "jsnum \<Rightarrow> jsnum \<Rightarrow> divided" where
  "divideBy msValue time =
     \<lparr>quotient = (if js_lt msValue (Fin 0) then Math_ceil (js_div msValue time)
                   else Math_floor (js_div msValue time)),
      remainder = js_mod msValue time\<rparr>"

definition fill :: "jsnum \<Rightarrow> string" where
  "fill num = (if js_lt num (Fin 10) then ''0'' @ Number_toString num else Number_toString num)"

text \<open>
  \<open>formatSecondsToClock(seconds, {padAll})\<close>, lines 153 to 183. The option \<open>padAll\<close> is
  true when the call gives no options. The numbers among the parts are written by
  \<open>join\<close> as \<open>String\<close> writes them.
\<close>

definition formatSecondsToClock :: "jsnum \<Rightarrow> bool \<Rightarrow> string" where
  "formatSecondsToClock seconds padAll =
     (if js_eq seconds (Fin 0) \<or> isNaN seconds then (if padAll then ''00:00'' else ''0:00'')
      else
        let absMSValue = lodash_round (Math_abs (js_mul seconds (Fin 1000))) None;
            hours = quotient (divideBy absMSValue HOUR);
            rMins = remainder (divideBy absMSValue HOUR);
            minutes = quotient (divideBy rMins MINUTE);
            rSeconds = remainder (divideBy rMins MINUTE);
            secs = quotient (divideBy rSeconds SECOND);
            milliseconds = remainder (divideBy rSeconds SECOND);
            parts =
              (if truthy hours
               then [if padAll then fill hours else Number_toString hours, fill minutes, fill secs]
               else [if padAll then fill minutes else Number_toString minutes, fill secs]);
            ms = slice (- 3) (''000'' @ Number_toString milliseconds)
        in if truthy milliseconds then join '':'' parts @ ''.'' @ ms else join '':'' parts)"


section \<open>The exact duration\<close>

text \<open>
  Modelled from the spec: the text lookup collaborator \<^verbatim>\<open>sentry/locale\<close> (\<open>t\<close> and \<open>tn\<close>)
  is not among the sources. It "supplies singular/plural unit words", "keyed by a
  message identifier and a count for pluralization": with no translation loaded \<open>t\<close>
  gives its message back, and \<open>tn\<close> gives the singular word when the magnitude of the
  count is one and the plural word otherwise.
\<close>

definition t :: "string \<Rightarrow> string" where
  "t message = message"

definition tn :: "string \<Rightarrow> string \<Rightarrow> jsnum \<Rightarrow> string" where
  "tn singular plural count = (if Math_abs count = Fin 1 then singular else plural)"

text \<open>The precision tokens are the keys of \<open>SUFFIX_ABBR\<close> (lines 60 to 68).\<close>

datatype precision = Years | Weeks | Days | Hours | Minutes | Seconds | Milliseconds

fun key :: "precision \<Rightarrow> string" where
  "key Years = ''years''"
| "key Weeks = ''weeks''"
| "key Days = ''days''"
| "key Hours = ''hours''"
| "key Minutes = ''minutes''"
| "key Seconds = ''seconds''"
| "key Milliseconds = ''milliseconds''"

fun SUFFIX_ABBR :: "precision \<Rightarrow> string" where
  "SUFFIX_ABBR Years = t ''yr''"
| "SUFFIX_ABBR Weeks = t ''wk''"
| "SUFFIX_ABBR Days = t ''d''"
| "SUFFIX_ABBR Hours = t ''hr''"
| "SUFFIX_ABBR Minutes = t ''min''"
| "SUFFIX_ABBR Seconds = t ''s''"
| "SUFFIX_ABBR Milliseconds = t ''ms''"

text \<open>
  The five blocks of \<open>convertDuration\<close> (lines 94 to 133) differ in the unit, in the
  literal that the block compares \<open>minSuffix\<close> with, in the abbreviation and in the two
  words only. \<open>blocks\<close> lists them in the order of the code, and \<open>first_block\<close> is the
  first block whose condition \<open>value >= UNIT || (value && minSuffix === ' units')\<close> holds.
\<close>

record block =
  unit_ms :: jsnum
  literal :: string
  abbreviated :: string
  singular :: string
  plural :: string

definition blocks :: "block list" where
  "blocks =
     [\<lparr>unit_ms = WEEK, literal = '' weeks'', abbreviated = ''wk'', singular = ''week'', plural = ''weeks''\<rparr>,
      \<lparr>unit_ms = DAY, literal = '' days'', abbreviated = ''d'', singular = ''day'', plural = ''days''\<rparr>,
      \<lparr>unit_ms = HOUR, literal = '' hours'', abbreviated = ''hr'', singular = ''hour'', plural = ''hours''\<rparr>,
      \<lparr>unit_ms = MINUTE, literal = '' minutes'', abbreviated = ''min'', singular = ''minute'', plural = ''minutes''\<rparr>,
      \<lparr>unit_ms = SECOND, literal = '' seconds'', abbreviated = ''s'', singular = ''second'', plural = ''seconds''\<rparr>]"

fun first_block :: "jsnum \<Rightarrow> string \<Rightarrow> block list \<Rightarrow> block option" where
  "first_block value minSuffix [] = None"
| "first_block value minSuffix (b # bs) =
     (if js_ge value (unit_ms b) \<or> (truthy value \<and> minSuffix = literal b) then Some b
      else first_block value minSuffix bs)"

text \<open>
  \<open>convertDuration(secs, abbr)\<close>, lines 82 to 142, with \<open>minSuffix\<close> of the enclosing call
  as its first argument. The function calls itself on the remainder, and nothing in
  the code bounds the calls: a run that never returns is the value \<open>None\<close>.
\<close>

partial_function (option) convertDuration :: "string \<Rightarrow> jsnum \<Rightarrow> bool \<Rightarrow> string option" where
  "convertDuration minSuffix secs abbr =
     (let msValue = lodash_round (js_mul secs (Fin 1000)) None;
          value = lodash_round (Math_abs (js_mul secs (Fin 1000))) None
      in case first_block value minSuffix blocks of
           Some b \<Rightarrow>
             (let q = quotient (divideBy msValue (unit_ms b));
                  r = remainder (divideBy msValue (unit_ms b));
                  suffix = (if abbr then t (abbreviated b) else '' '' @ tn (singular b) (plural b) q)
              in if minSuffix = suffix then Some (Number_toString q @ suffix @ '' '' @ [])
                 else
                   do {
                     rest \<leftarrow> convertDuration minSuffix (js_div r (Fin 1000)) abbr;
                     Some (Number_toString q @ suffix @ '' '' @ rest)
                   })
         | None \<Rightarrow>
             if js_eq value (Fin 0) then Some []
             else
               (let suffix = (if abbr then t ''ms'' else '' '' @ tn ''millisecond'' ''milliseconds'' value)
                in Some (Number_toString msValue @ suffix)))"

text \<open>
  \<open>getExactDuration(seconds, abbreviation, precision)\<close>, lines 75 to 151. A call without
  the last two arguments has \<open>abbreviation = false\<close> and \<open>precision = 'milliseconds'\<close>.
\<close>

definition getExactDuration :: "jsnum \<Rightarrow> bool \<Rightarrow> precision \<Rightarrow> string option" where
  "getExactDuration seconds abbreviation precision =
     (let minSuffix = '' '' @ key precision in
      case convertDuration minSuffix seconds abbreviation of
        None \<Rightarrow> None
      | Some converted \<Rightarrow>
          (let result = trim converted in
           if length result \<noteq> 0 then Some result
           else Some (''0'' @ (if abbreviation then SUFFIX_ABBR precision else minSuffix))))"

section \<open>Floats, percentages and abbreviated numbers\<close>

text \<open>
  \<open>Number.prototype.toPrecision(p)\<close> of ECMAScript. A number that is not finite is
  written as \<open>String\<close> writes it; otherwise a precision outside 1 to 100 is a
  \<open>RangeError\<close>. The digits are those of the integer \<open>n\<close> of \<open>p\<close> digits for which
  \<open>n * 10 ^ (e - p + 1)\<close> is nearest the value, the larger of two; the exponent \<open>e\<close>
  decides between the scientific and the positional notation.
\<close>

definition precision_digits :: "rat \<Rightarrow> int \<Rightarrow> string" where
  "precision_digits x p =
     (let e0 = (if x = 0 then 0 else decimal_exponent x - 1);
          n0 = nat \<lfloor>x / pow10 (e0 - p + 1) + 1 / 2\<rfloor>;
          carry = (n0 = 10 ^ nat p);
          n = (if carry then 10 ^ nat (p - 1) else n0);
          e = (if carry then e0 + 1 else e0);
          m = (if x = 0 then replicate (nat p) (CHR ''0'') else show_nat n)
      in if e < - 6 \<or> p \<le> e then
           (if p \<noteq> 1 then take 1 m @ ''.'' @ drop 1 m else m)
           @ ''e'' @ (if 0 \<le> e then ''+'' else ''-'') @ show_nat (nat \<bar>e\<bar>)
         else if e = p - 1 then m
         else if 0 \<le> e then take (nat (e + 1)) m @ ''.'' @ drop (nat (e + 1)) m
         else ''0.'' @ replicate (nat (- (e + 1))) (CHR ''0'') @ m)"

definition toPrecision :: "jsnum \<Rightarrow> int \<Rightarrow> error + string" where
  "toPrecision x p =
     (case x of
        Fin q \<Rightarrow>
          if p < 1 \<or> 100 < p then Inl RangeError
          else Inr ((if q < 0 then ''-'' else []) @ precision_digits \<bar>q\<bar> p)
      | _ \<Rightarrow> Inr (Number_toString x))"

text \<open>
  \<open>Number.prototype.toLocaleString(undefined, options)\<close> belongs to the host and follows
  its locale: the formatters below take it as their first argument. It can throw a
  \<open>RangeError\<close> for an option out of range. The options that the code passes are
  \<open>maximumSignificantDigits\<close> and \<open>maximumFractionDigits\<close>, here the two fields.
\<close>

record NumberFormatOptions =
  maxSignificantDigits :: "int option"
  maxFractionDigits :: "int option"

type_synonym toLocaleString = "jsnum \<Rightarrow> NumberFormatOptions \<Rightarrow> error + string"

text \<open>
  \<open>formatFloat(number, places)\<close>, lines 200 to 203, for a whole number of places.
  \<open>Math.pow(10, places)\<close> is the exact power: that it overflows beyond 308 places is not
  modelled.
\<close>

definition formatFloat :: "jsnum \<Rightarrow> int \<Rightarrow> jsnum" where
  "formatFloat number places =
     (let multi = Fin (pow10 places)
      in js_div (parseInt (Number_toString (js_mul number multi)) 10) multi)"



text \<open>\<open>numberFormatSteps\<close>, lines 232 to 236.\<close>

definition numberFormatSteps :: "(jsnum \<times> string) list" where
  "numberFormatSteps = [(Fin 1000000000, ''b''), (Fin 1000000, ''m''), (Fin 1000, ''k'')]"

text \<open>
  The loop of \<open>formatAbbreviatedNumber\<close> over the steps (lines 255 to 284): \<open>continue\<close>
  is the call on the steps that are left, \<open>None\<close> is the end of the loop with no
  \<open>return\<close>. \<open>includeDecimals\<close> is false when the call leaves it out, and
  \<open>maximumSignificantDigits || 1\<close> is one for \<open>undefined\<close> and for zero.
\<close>

fun steps_loop ::
    "toLocaleString \<Rightarrow> string \<Rightarrow> jsnum \<Rightarrow> int option \<Rightarrow> bool \<Rightarrow> (jsnum \<times> string) list
      \<Rightarrow> (error + string) option" where
  "steps_loop toLocaleString prefix numAbsValue maximumSignificantDigits includeDecimals [] = None"
| "steps_loop toLocaleString prefix numAbsValue maximumSignificantDigits includeDecimals
      ((suffixNum, suffix) # steps) =
     (let shortValue = Math_floor (js_div numAbsValue suffixNum);
          fitsBound = js_eq (js_mod numAbsValue suffixNum) (Fin 0)
      in if js_le shortValue (Fin 0)
         then steps_loop toLocaleString prefix numAbsValue maximumSignificantDigits includeDecimals steps
         else
           let useShortValue = (\<not> includeDecimals \<and> (js_gt shortValue (Fin 10) \<or> fitsBound)) in
           if useShortValue then
             (case maximumSignificantDigits of
                None \<Rightarrow> Some (Inr (prefix @ Number_toString shortValue @ suffix))
              | Some digits \<Rightarrow>
                  (case toPrecision shortValue digits of
                     Inl e \<Rightarrow> Some (Inl e)
                   | Inr p \<Rightarrow> Some (Inr (prefix @ Number_toString (parseFloat p) @ suffix))))
           else
             (case toLocaleString
                     (formatFloat (js_div numAbsValue suffixNum)
                        (case maximumSignificantDigits of
                           None \<Rightarrow> 1
                         | Some digits \<Rightarrow> if digits = 0 then 1 else digits))
                     \<lparr>maxSignificantDigits = maximumSignificantDigits,
                      maxFractionDigits = None\<rparr> of
                Inl e \<Rightarrow> Some (Inl e)
              | Inr formattedNumber \<Rightarrow> Some (Inr (prefix @ formattedNumber @ suffix))))"

text \<open>\<open>formatAbbreviatedNumber(number, maximumSignificantDigits, includeDecimals)\<close>, lines 245 to 287.\<close>

definition formatAbbreviatedNumber ::
    "toLocaleString \<Rightarrow> jsval \<Rightarrow> int option \<Rightarrow> bool \<Rightarrow> error + string" where
  "formatAbbreviatedNumber toLocaleString number maximumSignificantDigits includeDecimals =
     (let number = Number number;
          prefix = (if js_lt number (Fin 0) then ''-'' else []);
          numAbsValue = Math_abs number
      in case steps_loop toLocaleString prefix numAbsValue maximumSignificantDigits
                includeDecimals numberFormatSteps of
           Some returned \<Rightarrow> returned
         | None \<Rightarrow>
             toLocaleString number
               \<lparr>maxSignificantDigits = maximumSignificantDigits,
                maxFractionDigits = None\<rparr>)"

section \<open>The vocabulary of the statements\<close>











section \<open>Evaluation of numbers\<close>

lemma floor_rat_numeral_div:
  "\<lfloor>(numeral a :: rat) / numeral b\<rfloor> = (numeral a :: int) div numeral b"
  "\<lfloor>- ((numeral a :: rat) / numeral b)\<rfloor> = (- numeral a :: int) div numeral b"
  "\<lfloor>(1 :: rat) / numeral b\<rfloor> = (1 :: int) div numeral b"
  "\<lfloor>- ((1 :: rat) / numeral b)\<rfloor> = (- 1 :: int) div numeral b"
  using floor_divide_of_int_eq [of "numeral a" "numeral b", where ?'a = rat]
    floor_divide_of_int_eq [of "- numeral a" "numeral b", where ?'a = rat]
    floor_divide_of_int_eq [of 1 "numeral b", where ?'a = rat]
    floor_divide_of_int_eq [of "- 1" "numeral b", where ?'a = rat]
  by simp_all

lemma ceiling_rat_numeral_div:
  "\<lceil>(numeral a :: rat) / numeral b\<rceil> = - ((- numeral a :: int) div numeral b)"
  "\<lceil>- ((numeral a :: rat) / numeral b)\<rceil> = - ((numeral a :: int) div numeral b)"
  "\<lceil>(1 :: rat) / numeral b\<rceil> = - ((- 1 :: int) div numeral b)"
  "\<lceil>- ((1 :: rat) / numeral b)\<rceil> = - ((1 :: int) div numeral b)"
  unfolding ceiling_def by (simp_all add: floor_rat_numeral_div)


section \<open>Digits\<close>

lemma show_nat_small: "n < 10 \<Longrightarrow> show_nat n = [digit_char n]"
  by (subst show_nat.simps) simp

lemma show_nat_big: "10 \<le> n \<Longrightarrow> show_nat n = show_nat (n div 10) @ [digit_char (n mod 10)]"
  by (subst show_nat.simps) simp

lemma show_nat_not_Nil: "show_nat n \<noteq> []"
  by (subst show_nat.simps) simp

lemma show_nat_length_bounds:
  "0 < n \<Longrightarrow> 10 ^ (length (show_nat n) - 1) \<le> n \<and> n < 10 ^ length (show_nat n)"
proof (induction n rule: show_nat.induct)
  case (1 n)
  show ?case
  proof (cases "n < 10")
    case True
    with "1.prems" show ?thesis by (simp add: show_nat_small)
  next
    case False
    then have pos: "0 < n div 10" by simp
    from "1.IH" [OF False pos]
    have lo: "10 ^ (length (show_nat (n div 10)) - 1) \<le> n div 10"
      and hi: "n div 10 < 10 ^ length (show_nat (n div 10))" by simp_all
    have len: "length (show_nat n) = Suc (length (show_nat (n div 10)))"
      using False by (simp add: show_nat_big)
    obtain k where L: "length (show_nat (n div 10)) = Suc k"
      using show_nat_not_Nil [of "n div 10"] by (cases "show_nat (n div 10)") auto
    define c :: nat where "c = 10 ^ k"
    from lo L have "c \<le> n div 10" by (simp add: c_def)
    then have a: "10 * c \<le> n" by arith
    from hi L have "n div 10 < 10 * c" by (simp add: c_def)
    then have b: "n < 10 * (10 * c)" by arith
    show ?thesis using a b len L by (simp add: c_def)
  qed
qed

lemma digit_char_0: "digit_char 0 = CHR ''0''"
  by (simp add: digit_char_def char_of_eq_iff)

lemma digit_char_numerals:
  "digit_char 0 = CHR ''0''" "digit_char 1 = CHR ''1''" "digit_char 2 = CHR ''2''"
  "digit_char 3 = CHR ''3''" "digit_char 4 = CHR ''4''" "digit_char 5 = CHR ''5''"
  "digit_char 6 = CHR ''6''" "digit_char 7 = CHR ''7''" "digit_char 8 = CHR ''8''"
  "digit_char 9 = CHR ''9''" "digit_char (Suc 0) = CHR ''1''"
  by (simp_all add: digit_char_def char_of_eq_iff bit_0)


lemma show_nat_times_pow10:
  "0 < s \<Longrightarrow> show_nat (s * 10 ^ z) = show_nat s @ replicate z (CHR ''0'')"
proof (induction z)
  case 0
  then show ?case by simp
next
  case (Suc z)
  have "10 \<le> s * 10 ^ Suc z" using Suc.prems by simp
  then have "show_nat (s * 10 ^ Suc z) = show_nat (s * 10 ^ Suc z div 10) @ [digit_char (s * 10 ^ Suc z mod 10)]"
    by (rule show_nat_big)
  also have "s * 10 ^ Suc z div 10 = s * 10 ^ z" by simp
  also have "s * 10 ^ Suc z mod 10 = 0" by simp
  finally show ?case using Suc by (simp add: digit_char_0 replicate_append_same)
qed

lemma strip_zeros_times_pow10:
  "0 < n \<Longrightarrow> strip_zeros (n * 10 ^ k) = (case strip_zeros n of (s, z) \<Rightarrow> (s, z + k))"
proof (induction k)
  case 0
  then show ?case by (simp split: prod.split)
next
  case (Suc k)
  have "strip_zeros (n * 10 ^ Suc k) = (case strip_zeros (n * 10 ^ Suc k div 10) of (s, z) \<Rightarrow> (s, Suc z))"
    using Suc.prems by (subst strip_zeros.simps) simp
  also have "n * 10 ^ Suc k div 10 = n * 10 ^ k" by simp
  finally show ?case using Suc by (simp split: prod.split)
qed

lemma strip_zeros_spec:
  "0 < n \<Longrightarrow> strip_zeros n = (s, z) \<Longrightarrow> n = s * 10 ^ z \<and> 0 < s"
proof (induction n arbitrary: s z rule: strip_zeros.induct)
  case (1 m)
  show ?case
  proof (cases "m mod 10 \<noteq> 0")
    case True
    then have "strip_zeros m = (m, 0)" by (subst strip_zeros.simps) simp
    with "1.prems" show ?thesis by simp
  next
    case False
    then have m0: "m mod 10 = 0" by simp
    with "1.prems" have pos: "0 < m div 10" by presburger
    obtain s' z' where sz: "strip_zeros (m div 10) = (s', z')" by (cases "strip_zeros (m div 10)")
    have c: "\<not> (m = 0 \<or> m mod 10 \<noteq> 0)" using m0 "1.prems" by simp
    from "1.IH" [OF c pos sz] have ih: "m div 10 = s' * 10 ^ z'" "0 < s'" by simp_all
    have "strip_zeros m = (case strip_zeros (m div 10) of (s, z) \<Rightarrow> (s, Suc z))"
      using c by (subst strip_zeros.simps) simp
    with "1.prems"(2) sz have "s = s'" "z = Suc z'" by simp_all
    moreover have "m = 10 * (m div 10)" using m0 by presburger
    ultimately show ?thesis using ih by simp
  qed
qed


lemma show_nat_length_le:
  assumes "0 < n" "n < 10 ^ k"
  shows "length (show_nat n) \<le> k"
proof (rule ccontr)
  assume "\<not> length (show_nat n) \<le> k"
  then have "k \<le> length (show_nat n) - 1" by simp
  then have "(10::nat) ^ k \<le> 10 ^ (length (show_nat n) - 1)"
    by (intro power_increasing) simp_all
  also have "\<dots> \<le> n" using show_nat_length_bounds [OF assms(1)] by simp
  finally show False using assms(2) by simp
qed

lemma decimal_exponent_of_nat:
  assumes "0 < n"
  shows "decimal_exponent (of_nat n) = int (length (show_nat n))"
proof -
  have q: "quotient_of (of_nat n :: rat) = (int n, 1)"
    using quotient_of_int [of "int n"] by simp
  have one: "length (show_nat 1) = 1" by (simp add: show_nat_small)
  obtain k where L: "length (show_nat n) = Suc k"
    using show_nat_not_Nil [of n] by (cases "show_nat n") auto
  have "10 ^ k \<le> n" using show_nat_length_bounds [OF assms] L by simp
  then have "(10::rat) ^ k \<le> of_nat n"
    by (metis of_nat_le_iff of_nat_numeral of_nat_power)
  then show ?thesis
    using q one L by (simp add: decimal_exponent_def pow10_def)
qed

lemma shortest_digits_of_nat:
  assumes "0 < n" "n < 10 ^ 17" "strip_zeros n = (s, z)"
  shows "shortest_digits (of_nat n) = (s, int (length (show_nat s)) + int z)"
proof -
  have le: "length (show_nat n) \<le> 17" using assms(1,2) by (rule show_nat_length_le)
  define k where "k = 17 - length (show_nat n)"
  have p: "pow10 (17 - int (length (show_nat n))) = 10 ^ k"
    using le by (simp add: pow10_def k_def nat_diff_distrib)
  have f: "\<lfloor>(of_nat n :: rat) * 10 ^ k + 1 / 2\<rfloor> = int (n * 10 ^ k)"
    by (rule floor_unique) simp_all
  have st: "strip_zeros (n * 10 ^ k) = (s, z + k)"
    using strip_zeros_times_pow10 [OF assms(1), of k] assms(3) by simp
  have nn: "nat (int n * 10 ^ k) = n * 10 ^ k"
    by (simp add: nat_mult_distrib nat_power_eq)
  have "int k = 17 - int (length (show_nat n))" using le by (simp add: k_def)
  then show ?thesis
    unfolding shortest_digits_def decimal_exponent_of_nat [OF assms(1)] Let_def p f
    by (simp add: st nn)
qed

lemma positive_toString_of_nat:
  assumes "0 < n" "n < 10 ^ 17"
  shows "positive_toString (of_nat n) = show_nat n"
proof -
  obtain s z where sz: "strip_zeros n = (s, z)" by (cases "strip_zeros n")
  from strip_zeros_spec [OF assms(1) sz] have n: "n = s * 10 ^ z" and s: "0 < s" by simp_all
  have sh: "show_nat n = show_nat s @ replicate z (CHR ''0'')"
    unfolding n using s by (rule show_nat_times_pow10)
  have "length (show_nat n) \<le> 17" using assms by (rule show_nat_length_le)
  then have le: "length (show_nat s) + z \<le> 17" by (simp add: sh)
  show ?thesis
    unfolding positive_toString_def shortest_digits_of_nat [OF assms sz]
    using le by (simp add: Let_def sh)
qed

lemma Number_toString_of_nat:
  assumes "n < 10 ^ 17"
  shows "Number_toString (Fin (of_nat n)) = show_nat n"
proof (cases "n = 0")
  case True
  then show ?thesis by (simp add: show_nat_small digit_char_0)
next
  case False
  then show ?thesis using assms by (simp add: positive_toString_of_nat)
qed

lemma Number_toString_of_neg:
  assumes "0 < n" "n < 10 ^ 17"
  shows "Number_toString (Fin (- of_nat n)) = ''-'' @ show_nat n"
  using assms by (simp add: positive_toString_of_nat)

lemma Number_toString_numeral:
  "numeral w < (10::nat) ^ 17 \<Longrightarrow> Number_toString (Fin (numeral w)) = show_nat (numeral w)"
  using Number_toString_of_nat [of "numeral w"] by simp

lemma Number_toString_neg_numeral:
  "numeral w < (10::nat) ^ 17 \<Longrightarrow> Number_toString (Fin (- numeral w)) = ''-'' @ show_nat (numeral w)"
  using Number_toString_of_neg [of "numeral w"] by simp

lemma Number_toString_0: "Number_toString (Fin 0) = ''0''"
  by simp

lemma Number_toString_1: "Number_toString (Fin 1) = ''1''"
  using Number_toString_of_nat [of 1] by (simp add: show_nat_small digit_char_def char_of_eq_iff bit_0)


declare Number_toString.simps(4) [simp del]

lemmas num_eval = floor_rat_numeral_div ceiling_rat_numeral_div trunc_def
  Number_toString_numeral Number_toString_neg_numeral Number_toString_0 Number_toString_1
  show_nat_small show_nat_big digit_char_numerals

section \<open>The clock: examples and the special case\<close>

lemmas clock_eval = formatSecondsToClock_def divideBy_def fill_def HOUR_def MINUTE_def SECOND_def
  js_eq_def isNaN_def truthy_def slice_def Let_def num_eval

text \<open>
  Claim C3, as amended. At the default options (\<open>padAll\<close> true) the hours are padded like
  the minutes: \<open>formatSecondsToClock(3915)\<close> is \<open>"01:05:15"\<close>, and \<open>"1:05:15"\<close> is the result
  with \<open>{padAll: false}\<close>. \<open>formatSecondsToClock(0)\<close> is \<open>"00:00"\<close> and
  \<open>formatSecondsToClock(5, {padAll: false})\<close> is \<open>"0:05"\<close>.
\<close>

theorem C3_clock_examples:
  "formatSecondsToClock (Fin 3915) True = ''01:05:15'' \<and>
   formatSecondsToClock (Fin 3915) False = ''1:05:15'' \<and>
   formatSecondsToClock (Fin 0) True = ''00:00'' \<and>
   formatSecondsToClock (Fin 5) False = ''0:05''"
proof -
  have "formatSecondsToClock (Fin 3915) True = ''01:05:15''" by (simp add: clock_eval)
  moreover have "formatSecondsToClock (Fin 3915) False = ''1:05:15''" by (simp add: clock_eval)
  moreover have "formatSecondsToClock (Fin 0) True = ''00:00''" by (simp add: clock_eval)
  moreover have "formatSecondsToClock (Fin 5) False = ''0:05''" by (simp add: clock_eval)
  ultimately show ?thesis by blast
qed

text \<open>
  Claim C3 as stated fails at its first example: with the default options the result
  for 3915 seconds is not \<open>"1:05:15"\<close>.
\<close>

theorem C3_default_pads_hours: "formatSecondsToClock (Fin 3915) True \<noteq> ''1:05:15''"
  by (simp add: clock_eval)

text \<open>
  Claim C4, as amended. The special case of \<open>formatSecondsToClock\<close> is the test
  \<open>seconds === 0 || isNaN(seconds)\<close>: for zero and for NaN the result is \<open>"00:00"\<close> when
  \<open>padAll\<close> is true and \<open>"0:00"\<close> when it is false. An infinity is not caught by the test
  and goes through the division: the result is \<open>"Infinity:NaN:NaN"\<close>.
\<close>

theorem C4_zero_and_NaN_special_case:
  "formatSecondsToClock (Fin 0) padAll = (if padAll then ''00:00'' else ''0:00'') \<and>
   formatSecondsToClock NaN padAll = (if padAll then ''00:00'' else ''0:00'') \<and>
   formatSecondsToClock PInf padAll = ''Infinity:NaN:NaN'' \<and>
   formatSecondsToClock NInf padAll = ''Infinity:NaN:NaN''"
proof -
  have "formatSecondsToClock (Fin 0) padAll = (if padAll then ''00:00'' else ''0:00'')"
    by (simp add: formatSecondsToClock_def js_eq_def)
  moreover have "formatSecondsToClock NaN padAll = (if padAll then ''00:00'' else ''0:00'')"
    by (simp add: formatSecondsToClock_def isNaN_def)
  moreover have "formatSecondsToClock PInf padAll = ''Infinity:NaN:NaN''"
    by (simp add: clock_eval inf_of_sign_def)
  moreover have "formatSecondsToClock NInf padAll = ''Infinity:NaN:NaN''"
    by (simp add: clock_eval inf_of_sign_def)
  ultimately show ?thesis by blast
qed

text \<open>
  Claim C4 as stated fails at \<open>+Infinity\<close>, which is not finite: the result with the
  default options is not \<open>"00:00"\<close>.
\<close>

theorem C4_infinity_not_special: "formatSecondsToClock PInf True \<noteq> ''00:00''"
  by (simp add: clock_eval inf_of_sign_def)

section \<open>The clock read back\<close>

subsection \<open>Digit strings\<close>












subsection \<open>The parts of the clock\<close>






















section \<open>Truncation by \<open>formatFloat\<close>\<close>

lemma strip_zeros_5: "strip_zeros (5 * 10 ^ 16) = (5, 16)"
proof -
  have "strip_zeros 5 = (5, 0)" by (subst strip_zeros.simps) simp
  then show ?thesis using strip_zeros_times_pow10 [of 5 16] by simp
qed

lemma decimal_exponent_5e_7: "decimal_exponent (1 / 2000000) = - 6"
proof -
  have e: "(1 / 2000000 :: rat) = Fract 1 2000000"
    by (simp add: Fract_of_int_quotient)
  have "quotient_of (1 / 2000000 :: rat) = (1, 2000000)"
    unfolding e by (simp add: quotient_of_Fract Rat.normalize_def)
  then show ?thesis
    by (simp add: decimal_exponent_def pow10_def show_nat_small show_nat_big)
qed

lemma toString_5e_7: "Number_toString (Fin (1 / 2000000)) = ''5e-7''"
proof -
  have m: "nat \<lfloor>(1 / 2000000 :: rat) * pow10 (17 - - 6) + 1 / 2\<rfloor> = 5 * 10 ^ 16"
    by (simp add: pow10_def floor_rat_numeral_div)
  have "shortest_digits (1 / 2000000) = (5, - 6)"
    unfolding shortest_digits_def decimal_exponent_5e_7 Let_def m strip_zeros_5
    by (simp add: show_nat_small)
  then have "positive_toString (1 / 2000000) = ''5e-7''"
    by (simp add: positive_toString_def show_nat_small digit_char_numerals)
  then show ?thesis by (simp add: Number_toString.simps)
qed

text \<open>
  Claim C6 says that \<open>formatFloat\<close> truncates, so that the magnitude of the result never
  exceeds that of the input. \<open>formatFloat(0.0000005, 0)\<close> is 5: the product \<open>5e-7\<close> is
  written in scientific notation, and \<open>parseInt\<close> reads the digit before the \<open>e\<close>.
\<close>

theorem C6_formatFloat_scientific_notation: "formatFloat (Fin (5 / 10000000)) 0 = Fin 5"
proof -
  have "parseInt ''5e-7'' 10 = Fin 5" by code_simp
  then show ?thesis by (simp add: formatFloat_def pow10_def toString_5e_7)
qed

section \<open>The zero duration\<close>

lemmas duration_eval = blocks_def WEEK_def DAY_def HOUR_def MINUTE_def SECOND_def
  js_ge_def js_le_def js_eq_def truthy_def divideBy_def t_def tn_def Let_def num_eval

lemma first_block_zero: "first_block (Fin 0) minSuffix blocks = None"
  by (simp add: duration_eval)

lemma convertDuration_zero:
  assumes "lodash_round (Math_abs (js_mul secs (Fin 1000))) None = Fin 0"
  shows "convertDuration minSuffix secs abbr = Some []"
  using assms by (subst convertDuration.simps) (simp add: first_block_zero js_eq_def Let_def)

lemma trim_Nil: "trim [] = []"
  by (simp add: trim_def)

text \<open>
  Claim C5. When the magnitude of the input rounds to zero milliseconds,
  \<open>getExactDuration\<close> returns \<open>"0"\<close> followed by the abbreviation of the precision token
  (\<open>abbreviation\<close> true) or by a space and the token itself (\<open>abbreviation\<close> false), for
  every token; the result is never the empty string.
\<close>

theorem C5_zero_duration:
  assumes "lodash_round (Math_abs (js_mul seconds (Fin 1000))) None = Fin 0"
  shows "getExactDuration seconds abbreviation precision =
    Some (''0'' @ (if abbreviation then SUFFIX_ABBR precision else '' '' @ key precision))"
  by (simp add: getExactDuration_def convertDuration_zero [OF assms] trim_Nil)

text \<open>
  The two calls that the claim names, \<open>getExactDuration(0, false, 'milliseconds')\<close> and
  \<open>getExactDuration(0, true, 'milliseconds')\<close>, and a duration of 0.3 milliseconds.
\<close>

theorem C5_zero_duration_witness:
  "getExactDuration (Fin 0) False Milliseconds = Some ''0 milliseconds'' \<and>
   getExactDuration (Fin 0) True Milliseconds = Some ''0ms'' \<and>
   getExactDuration (Fin (3 / 10000)) True Seconds = Some ''0s''"
proof -
  have z: "lodash_round (Math_abs (js_mul (Fin 0) (Fin 1000))) None = Fin 0"
    by (simp add: num_eval)
  have s: "lodash_round (Math_abs (js_mul (Fin (3 / 10000)) (Fin 1000))) None = Fin 0"
    by (simp add: num_eval)
  show ?thesis
    using C5_zero_duration [OF z, of False Milliseconds] C5_zero_duration [OF z, of True Milliseconds]
      C5_zero_duration [OF s, of True Seconds]
    by (simp add: t_def)
qed

section \<open>The precision of the exact duration\<close>

text \<open>
  \<open>convertDuration\<close> stops at the precision when \<open>minSuffix === suffix\<close>. With
  \<open>abbreviation\<close> true the suffix is the abbreviation (\<open>s\<close>), which is never \<open>minSuffix\<close>
  (\<open>" seconds"\<close>): on 0.2 seconds the block of the seconds is entered for the precision,
  the quotient is 0, the remainder is the whole value, and the function calls itself
  with the same arguments. It never returns.
\<close>

lemma convertDuration_fifth_abbr_diverges:
  "convertDuration '' seconds'' (Fin (1 / 5)) True = None"
proof (rule ccontr)
  assume "convertDuration '' seconds'' (Fin (1 / 5)) True \<noteq> None"
  then obtain y where y: "convertDuration '' seconds'' (Fin (1 / 5)) True = Some y" by auto
  have "('' seconds'', Fin (1 / 5), True) \<noteq> ('' seconds'', Fin (1 / 5), True)"
  proof (rule convertDuration.raw_induct
      [where P = "\<lambda>m s a out. (m, s, a) \<noteq> ('' seconds'', Fin (1 / 5), True)", OF _ y])
    fix self :: "string \<Rightarrow> jsnum \<Rightarrow> bool \<Rightarrow> string option"
    fix minSuffix secs abbr out
    assume IH: "\<And>m s a out. self m s a = Some out \<Longrightarrow> (m, s, a) \<noteq> ('' seconds'', Fin (1 / 5), True)"
    assume body: "(let msValue = lodash_round (js_mul secs (Fin 1000)) None;
          value = lodash_round (Math_abs (js_mul secs (Fin 1000))) None
      in case first_block value minSuffix blocks of
           None \<Rightarrow>
             if js_eq value (Fin 0) then Some []
             else
               (let suffix = (if abbr then t ''ms'' else '' '' @ tn ''millisecond'' ''milliseconds'' value)
                in Some (Number_toString msValue @ suffix))
         | Some b \<Rightarrow>
             (let q = quotient (divideBy msValue (unit_ms b));
                  r = remainder (divideBy msValue (unit_ms b));
                  suffix = (if abbr then t (abbreviated b) else '' '' @ tn (singular b) (plural b) q)
              in if minSuffix = suffix then Some (Number_toString q @ suffix @ '' '' @ [])
                 else self minSuffix (js_div r (Fin 1000)) abbr \<bind>
                    (\<lambda>rest. Some (Number_toString q @ suffix @ '' '' @ rest)))) = Some out"
    show "(minSuffix, secs, abbr) \<noteq> ('' seconds'', Fin (1 / 5), True)"
    proof (rule notI)
      assume a: "(minSuffix, secs, abbr) = ('' seconds'', Fin (1 / 5), True)"
      have "self '' seconds'' (Fin (1 / 5)) True \<bind> (\<lambda>rest. Some (''0s '' @ rest)) = Some out"
        using body a by (simp add: duration_eval)
      then obtain rest where "self '' seconds'' (Fin (1 / 5)) True = Some rest"
        by (cases "self '' seconds'' (Fin (1 / 5)) True") auto
      from IH [OF this] show False by simp
    qed
  qed
  then show False by simp
qed

text \<open>
  In the long form the suffix of the quotient one is the singular word, which is not
  \<open>minSuffix\<close> either: the remainder is formatted, and gives a second segment.
\<close>

lemma convertDuration_six_fifths_long:
  "convertDuration '' seconds'' (Fin (6 / 5)) False = Some ''1 second 0 seconds ''"
proof -
  have "convertDuration '' seconds'' (Fin (1 / 5)) False = Some ''0 seconds ''"
    by (subst convertDuration.simps) (simp add: duration_eval)
  then show ?thesis
    by (subst convertDuration.simps) (simp add: duration_eval)
qed

text \<open>
  Claim C2 says that the decomposition stops at the precision in the long and in the
  abbreviated form, and that no segment follows the segment of the precision unit.
  \<open>getExactDuration(0.2, true, 'seconds')\<close> never returns (the claim gives \<open>"0s"\<close>), and
  \<open>getExactDuration(1.2, false, 'seconds')\<close> is \<open>"1 second 0 seconds"\<close> (the claim gives
  \<open>"1 second"\<close>).
\<close>

theorem C2_precision_not_honoured:
  "getExactDuration (Fin (1 / 5)) True Seconds = None \<and>
   getExactDuration (Fin (6 / 5)) False Seconds = Some ''1 second 0 seconds''"
proof -
  have "trim ''1 second 0 seconds '' = ''1 second 0 seconds''" by code_simp
  then show ?thesis
    by (simp add: getExactDuration_def convertDuration_fifth_abbr_diverges
        convertDuration_six_fifths_long)
qed

section \<open>The units of the exact duration\<close>

subsection \<open>Texts between spaces\<close>










subsection \<open>The segments of a conversion\<close>





subsection \<open>The precision \<open>years\<close>\<close>

















section \<open>Percentages\<close>



section \<open>Abbreviated numbers\<close>

subsection \<open>A string that is not a number\<close>

lemma js_mul_NaN: "js_mul NaN x = NaN"
  by (cases x) simp_all

lemma parseInt_NaN: "parseInt ''NaN'' 10 = NaN"
  by code_simp

lemma formatFloat_NaN: "formatFloat NaN places = NaN"
  by (simp add: formatFloat_def js_mul_NaN parseInt_NaN)

lemma formatAbbreviatedNumber_NaN:
  assumes "Number number = NaN"
    and "toLocaleString NaN
      \<lparr>maxSignificantDigits = maximumSignificantDigits, maxFractionDigits = None\<rparr> = Inr rendered"
  shows "formatAbbreviatedNumber toLocaleString number maximumSignificantDigits includeDecimals
    = Inr (rendered @ ''b'')"
  using assms
  by (simp add: formatAbbreviatedNumber_def numberFormatSteps_def js_le_def js_gt_def js_eq_def
      formatFloat_NaN)

lemma Number_abc: "Number (Str ''abc'') = NaN"
  by code_simp

text \<open>
  Claim C8, as amended. For a string that \<open>Number()\<close> coerces to NaN, and a host that
  writes NaN as \<open>"NaN"\<close>, \<open>formatAbbreviatedNumber\<close> returns \<open>"NaNb"\<close>: the test
  \<open>shortValue <= 0\<close> is false for NaN, so the loop returns at its first step, with the
  suffix \<open>b\<close> of that step attached.
\<close>

theorem C8_NaN_with_first_suffix:
  assumes "Number (Str s) = NaN"
    and "toLocaleString NaN
      \<lparr>maxSignificantDigits = maximumSignificantDigits, maxFractionDigits = None\<rparr> = Inr ''NaN''"
  shows "formatAbbreviatedNumber toLocaleString (Str s) maximumSignificantDigits includeDecimals
    = Inr ''NaNb''"
  using formatAbbreviatedNumber_NaN [where toLocaleString = toLocaleString and rendered = "''NaN''"] assms
  by simp

text \<open>The string \<open>"abc"\<close> of the claim.\<close>

theorem C8_NaN_with_first_suffix_witness:
  "Number (Str ''abc'') = NaN \<and>
   formatAbbreviatedNumber (\<lambda>x opts. Inr ''NaN'') (Str ''abc'') None False = Inr ''NaNb''"
  using Number_abc
    C8_NaN_with_first_suffix [where toLocaleString = "\<lambda>x opts. Inr ''NaN''" and s = "''abc''"
      and maximumSignificantDigits = None and includeDecimals = False]
  by simp

text \<open>
  Claim C8 as stated, that the output is \<open>"NaN"\<close> with no suffix attached, fails at
  \<open>"abc"\<close>.
\<close>

theorem C8_suffix_is_attached:
  "\<not> (\<forall>toLocaleString s maximumSignificantDigits includeDecimals.
        Number (Str s) = NaN \<and>
        toLocaleString NaN
          \<lparr>maxSignificantDigits = maximumSignificantDigits, maxFractionDigits = None\<rparr> = Inr ''NaN''
        \<longrightarrow> formatAbbreviatedNumber toLocaleString (Str s) maximumSignificantDigits includeDecimals
          = Inr ''NaN'')"
proof
  assume a: "\<forall>toLocaleString s maximumSignificantDigits includeDecimals.
        Number (Str s) = NaN \<and>
        toLocaleString NaN
          \<lparr>maxSignificantDigits = maximumSignificantDigits, maxFractionDigits = None\<rparr> = Inr ''NaN''
        \<longrightarrow> formatAbbreviatedNumber toLocaleString (Str s) maximumSignificantDigits includeDecimals
          = Inr ''NaN''"
  have "formatAbbreviatedNumber (\<lambda>x opts. Inr ''NaN'') (Str ''abc'') None False = Inr (''NaN'' @ ''b'')"
    using formatAbbreviatedNumber_NaN [where toLocaleString = "\<lambda>x opts. Inr ''NaN''"
        and rendered = "''NaN''" and number = "Str ''abc''"] Number_abc
    by simp
  moreover have "formatAbbreviatedNumber (\<lambda>x opts. Inr ''NaN'') (Str ''abc'') None False = Inr ''NaN''"
    using a [rule_format, of "''abc''" "\<lambda>x opts. Inr ''NaN''" None False] Number_abc by simp
  ultimately show False by simp
qed

subsection \<open>The quotient with its suffix\<close>











end
